theory Spec2Isabelle
  imports Main
begin

section \<open>The chat message component \<open>MessageBubble\<close>\<close>

text \<open>
  Source: \<^verbatim>\<open>src/frontend/src/components/chat/MessageBubble.tsx\<close>.
  The component is a function from its props and the current value of its one hook
  state \<open>showRawResponse\<close> to a React element tree. The tree is modelled as a datatype,
  the hook state as an explicit argument, and the one event handler as an action stored
  in the \<open>onClick\<close> slot of the element that carries it.
\<close>

subsection \<open>Props (lines 5-10)\<close>

datatype role = User | Assistant

record MessageBubbleProps =
  role :: role
  content :: string
  raw_model_response :: string
  timestamp :: "string option"

subsection \<open>Element trees and JSX expression values\<close>

text \<open>The only state update of the component: \<open>setShowRawResponse(b)\<close>.\<close>

datatype action = SetShowRawResponse bool

text \<open>
  A rendered tree: a text node, an imported icon component (\<open>User\<close>, \<open>Bot\<close> of
  lucide-react) with its \<open>className\<close>, or a host element with tag, \<open>className\<close>,
  \<open>onClick\<close> handler and children.
\<close>

datatype node =
    Text string
  | Icon string string
  | Element string string "action option" "node list"

text \<open>
  The values a JSX child expression \<open>{e}\<close> of this component can evaluate to:
  a boolean, \<open>undefined\<close>, a string, or an element.
\<close>

datatype jsx = JBool bool | JUndefined | JStr string | JNode node

text \<open>JavaScript truthiness: \<open>false\<close>, \<open>undefined\<close> and the empty string are falsy.\<close>

fun truthy :: "jsx \<Rightarrow> bool" where
  "truthy (JBool b) = b"
| "truthy JUndefined = False"
| "truthy (JStr s) = (s \<noteq> [])"
| "truthy (JNode n) = True"

text \<open>JavaScript \<open>a && b\<close>: the left operand when it is falsy, the right one otherwise.\<close>

definition js_and :: "jsx \<Rightarrow> jsx \<Rightarrow> jsx" where
  "js_and a b = (if truthy a then b else a)"

text \<open>
  What React renders for a child value: nothing for booleans, \<open>undefined\<close> and the
  empty string, a text node for a non-empty string, the element itself otherwise.
\<close>

fun react_child :: "jsx \<Rightarrow> node list" where
  "react_child (JBool b) = []"
| "react_child JUndefined = []"
| "react_child (JStr s) = (if s = [] then [] else [Text s])"
| "react_child (JNode n) = [n]"

definition react_children :: "jsx list \<Rightarrow> node list" where
  "react_children cs = concat (map react_child cs)"

subsection \<open>What the component takes from outside the file\<close>

text \<open>
  \<open>cn\<close> is imported from \<^verbatim>\<open>@/lib/utils\<close> (line 1), and \<open>Date\<close> with
  \<open>toLocaleTimeString\<close> belongs to the JavaScript platform. Neither is defined in the
  source file, so both are parameters of the model. A \<open>Date\<close> object is represented by
  its time value: \<open>Some\<close> milliseconds, or \<open>None\<close> for an invalid date (NaN).
\<close>

type_synonym time_value = "int option"

record platform =
  cn :: "string list \<Rightarrow> string"
  Date_new :: "string \<Rightarrow> time_value"
  toLocaleTimeString :: "time_value \<Rightarrow> string \<Rightarrow> (string \<times> string) list \<Rightarrow> string"

subsection \<open>The component (lines 12-83)\<close>

text \<open>Line 14: \<open>useState(false)\<close>.\<close>

definition showRawResponse_init :: bool where
  "showRawResponse_init = False"

text \<open>
  Line 61, the two button labels. The source writes them in Arabic; a \<open>string\<close> holds
  bytes, so each literal is given as its UTF-8 encoding (27 and 23 bytes). The first
  reads "hide the details", the second "show the details".
\<close>

definition label_hide_details :: string where
  "label_hide_details =
     [CHR 0xD8, CHR 0xA5, CHR 0xD8, CHR 0xAE, CHR 0xD9, CHR 0x81, CHR 0xD8, CHR 0xA7,
      CHR 0xD8, CHR 0xA1, CHR 0x20, CHR 0xD8, CHR 0xA7, CHR 0xD9, CHR 0x84, CHR 0xD8,
      CHR 0xAA, CHR 0xD9, CHR 0x81, CHR 0xD8, CHR 0xA7, CHR 0xD8, CHR 0xB5, CHR 0xD9,
      CHR 0x8A, CHR 0xD9, CHR 0x84]"

definition label_show_details :: string where
  "label_show_details =
     [CHR 0xD8, CHR 0xB9, CHR 0xD8, CHR 0xB1, CHR 0xD8, CHR 0xB6, CHR 0x20, CHR 0xD8,
      CHR 0xA7, CHR 0xD9, CHR 0x84, CHR 0xD8, CHR 0xAA, CHR 0xD9, CHR 0x81, CHR 0xD8,
      CHR 0xA7, CHR 0xD8, CHR 0xB5, CHR 0xD9, CHR 0x8A, CHR 0xD9, CHR 0x84]"

text \<open>Lines 24-35: the avatar.\<close>

definition avatar :: "platform \<Rightarrow> MessageBubbleProps \<Rightarrow> node" where
  "avatar pf props =
     (let isUser = (role props = User) in
      Element ''div''
        (cn pf [''flex h-8 w-8 shrink-0 items-center justify-center rounded-full'',
                if isUser then ''bg-user-bubble'' else ''bg-muted''])
        None
        (react_children
           [if isUser then JNode (Icon ''User'' ''h-4 w-4 text-user-bubble-foreground'')
            else JNode (Icon ''Bot'' ''h-4 w-4 text-muted-foreground'')]))"

text \<open>Lines 44-53: the bubble holding \<open>{content}\<close>.\<close>

definition bubble :: "platform \<Rightarrow> MessageBubbleProps \<Rightarrow> node" where
  "bubble pf props =
     (let isUser = (role props = User) in
      Element ''div''
        (cn pf [''rounded-2xl px-4 py-2.5 text-sm leading-relaxed whitespace-pre-wrap'',
                if isUser then ''bg-user-bubble text-user-bubble-foreground rounded-tl-sm''
                else ''bg-assistant-bubble text-assistant-bubble-foreground rounded-tr-sm''])
        None
        (react_children [JStr (content props)]))"

text \<open>
  Lines 56-63: \<open>{!isUser && raw_model_response && (<button ...>)}\<close>. The handler
  closes over the value of \<open>showRawResponse\<close> of this render.
\<close>

definition disclosure_control :: "MessageBubbleProps \<Rightarrow> bool \<Rightarrow> jsx" where
  "disclosure_control props showRawResponse =
     (let isUser = (role props = User) in
      js_and (js_and (JBool (\<not> isUser)) (JStr (raw_model_response props)))
        (JNode (Element ''button'' ''mt-1 text-xs text-blue-500 hover:underline''
           (Some (SetShowRawResponse (\<not> showRawResponse)))
           (react_children
              [JStr (if showRawResponse then label_hide_details
                     else label_show_details)]))))"

text \<open>Lines 66-70: \<open>{!isUser && showRawResponse && (<div ...>)}\<close>.\<close>

definition disclosure_panel :: "MessageBubbleProps \<Rightarrow> bool \<Rightarrow> jsx" where
  "disclosure_panel props showRawResponse =
     (let isUser = (role props = User) in
      js_and (js_and (JBool (\<not> isUser)) (JBool showRawResponse))
        (JNode (Element ''div''
           ''mt-1 rounded-lg bg-gray-100 p-2 text-xs text-gray-800 whitespace-pre-wrap''
           None
           (react_children [JStr (raw_model_response props)]))))"

text \<open>
  Lines 72-79: \<open>{timestamp && (<span ...>)}\<close>. An absent optional prop is
  \<open>undefined\<close>; the right operand, and with it the call of the formatter, is evaluated
  only when the left one is truthy.
\<close>

definition time_label :: "platform \<Rightarrow> MessageBubbleProps \<Rightarrow> jsx" where
  "time_label pf props =
     (case timestamp props of
        None \<Rightarrow> JUndefined
      | Some ts \<Rightarrow>
          js_and (JStr ts)
            (JNode (Element ''span'' ''px-1 text-xs text-muted-foreground'' None
               (react_children
                  [JStr (toLocaleTimeString pf (Date_new pf ts) ''ar-SA''
                           [(''hour'', ''2-digit''), (''minute'', ''2-digit'')])]))))"

text \<open>Lines 16-82: the returned tree.\<close>

definition MessageBubble :: "platform \<Rightarrow> MessageBubbleProps \<Rightarrow> bool \<Rightarrow> node" where
  "MessageBubble pf props showRawResponse =
     (let isUser = (role props = User) in
      Element ''div''
        (cn pf [''flex gap-3 animate-slide-up'',
                if isUser then ''flex-row-reverse'' else ''flex-row''])
        None
        (react_children
           [JNode (avatar pf props),
            JNode (Element ''div''
              (cn pf [''flex max-w-[80%] flex-col gap-1'',
                      if isUser then ''items-end'' else ''items-start''])
              None
              (react_children
                 [JNode (bubble pf props),
                  disclosure_control props showRawResponse,
                  disclosure_panel props showRawResponse,
                  time_label pf props]))]))"

subsection \<open>Reading a rendered tree\<close>

text \<open>
  The root has two children, the avatar and the message column. In the column the
  bubble comes first; after it the control is the only \<open>button\<close>, the panel the only
  \<open>div\<close>, and the time label the only \<open>span\<close>.
\<close>

fun message_column :: "node \<Rightarrow> node list" where
  "message_column (Element t c h [a, Element t' c' h' cs]) = cs"
| "message_column n = []"

fun has_tag :: "string \<Rightarrow> node \<Rightarrow> bool" where
  "has_tag t (Element t' c h cs) = (t = t')"
| "has_tag t n = False"

definition rendered_bubble :: "node \<Rightarrow> node option" where
  "rendered_bubble t = (case message_column t of [] \<Rightarrow> None | b # rest \<Rightarrow> Some b)"

definition disclosure_controls :: "node \<Rightarrow> node list" where
  "disclosure_controls t = filter (has_tag ''button'') (message_column t)"

definition disclosure_panels :: "node \<Rightarrow> node list" where
  "disclosure_panels t = filter (has_tag ''div'') (tl (message_column t))"

definition time_labels :: "node \<Rightarrow> node list" where
  "time_labels t = filter (has_tag ''span'') (message_column t)"

text \<open>The text a node shows: its text nodes, in order.\<close>

fun text_of :: "node \<Rightarrow> string" where
  "text_of (Text s) = s"
| "text_of (Icon n c) = []"
| "text_of (Element t c h cs) = concat (map text_of cs)"

subsection \<open>Clicks\<close>

fun apply_action :: "action \<Rightarrow> bool \<Rightarrow> bool" where
  "apply_action (SetShowRawResponse b) s = b"

text \<open>
  A click on the disclosure control runs the handler of the button of the current
  render. When the tree holds no button there is nothing to click and the state stays.
\<close>

definition click_control :: "platform \<Rightarrow> MessageBubbleProps \<Rightarrow> bool \<Rightarrow> bool" where
  "click_control pf props s =
     (case disclosure_controls (MessageBubble pf props s) of
        [] \<Rightarrow> s
      | b # rest \<Rightarrow>
          (case b of
             Element t c (Some a) cs \<Rightarrow> apply_action a s
           | _ \<Rightarrow> s))"

text \<open>
  The life of one mounted instance. React keeps the hook state of an instance across
  renders: a click runs the handler of the current render, and a render with new props
  from the parent replaces the props and leaves \<open>showRawResponse\<close> as it is. An
  instance is the pair of its current props and its hook state; it is mounted with the
  initial state of line 14.
\<close>

datatype event = Click | Rerender MessageBubbleProps

fun step ::
  "platform \<Rightarrow> MessageBubbleProps \<times> bool \<Rightarrow> event \<Rightarrow> MessageBubbleProps \<times> bool" where
  "step pf (props, s) Click = (props, click_control pf props s)"
| "step pf (props, s) (Rerender props') = (props', s)"

definition run ::
  "platform \<Rightarrow> MessageBubbleProps \<Rightarrow> event list \<Rightarrow> MessageBubbleProps \<times> bool" where
  "run pf props evs = foldl (step pf) (props, showRawResponse_init) evs"

subsection \<open>Exceptions of the platform\<close>

text \<open>
  The component has no \<open>throw\<close> and no \<open>try\<close>. The only calls that can end in an
  exception are the two platform calls of line 74, \<open>new Date(timestamp)\<close> and then
  \<open>toLocaleTimeString\<close> on its result, and they are reached only when \<open>timestamp\<close>
  is truthy (line 72). An exception of either leaves the component function, and the
  render fails with it. A platform whose calls may throw is a platform of return values
  together with, for each of the two calls, the exception it throws if any.
\<close>

datatype exn = Thrown string

record throwing_platform =
  returns :: platform
  Date_new_throws :: "string \<Rightarrow> exn option"
  toLocaleTimeString_throws ::
    "time_value \<Rightarrow> string \<Rightarrow> (string \<times> string) list \<Rightarrow> exn option"

text \<open>Line 74-77: the outcome of the formatting expression, an exception or a string.\<close>

definition format_call :: "throwing_platform \<Rightarrow> string \<Rightarrow> exn + string" where
  "format_call tp ts =
     (case Date_new_throws tp ts of
        Some e \<Rightarrow> Inl e
      | None \<Rightarrow>
          (case toLocaleTimeString_throws tp (Date_new (returns tp) ts) ''ar-SA''
                  [(''hour'', ''2-digit''), (''minute'', ''2-digit'')] of
             Some e \<Rightarrow> Inl e
           | None \<Rightarrow>
               Inr (toLocaleTimeString (returns tp) (Date_new (returns tp) ts) ''ar-SA''
                      [(''hour'', ''2-digit''), (''minute'', ''2-digit'')])))"

text \<open>
  The outcome of one render: the exception of the formatting expression when that
  expression is evaluated and throws, the tree otherwise.
\<close>

definition MessageBubble_outcome ::
  "throwing_platform \<Rightarrow> MessageBubbleProps \<Rightarrow> bool \<Rightarrow> exn + node" where
  "MessageBubble_outcome tp props showRawResponse =
     (case timestamp props of
        None \<Rightarrow> Inr (MessageBubble (returns tp) props showRawResponse)
      | Some ts \<Rightarrow>
          if truthy (JStr ts) then
            (case format_call tp ts of
               Inl e \<Rightarrow> Inl e
             | Inr str \<Rightarrow> Inr (MessageBubble (returns tp) props showRawResponse))
          else Inr (MessageBubble (returns tp) props showRawResponse))"

subsection \<open>A sample platform for concrete evaluations\<close>

text \<open>
  \<open>cn\<close> joins its arguments with spaces, one timestamp parses, and an invalid date
  is printed as \<open>Invalid Date\<close>.
\<close>

fun join_classes :: "string list \<Rightarrow> string" where
  "join_classes [] = []"
| "join_classes [c] = c"
| "join_classes (c # cs) = c @ '' '' @ join_classes cs"

definition sample_Date_new :: "string \<Rightarrow> time_value" where
  "sample_Date_new s = (if s = ''2024-01-01T13:05:00Z'' then Some 1704114300000 else None)"

fun sample_toLocaleTimeString ::
  "time_value \<Rightarrow> string \<Rightarrow> (string \<times> string) list \<Rightarrow> string" where
  "sample_toLocaleTimeString None loc opts = ''Invalid Date''"
| "sample_toLocaleTimeString (Some ms) loc opts = ''01:05 PM''"

text \<open>A second formatter, which prints a dash for every date.\<close>

fun other_toLocaleTimeString ::
  "time_value \<Rightarrow> string \<Rightarrow> (string \<times> string) list \<Rightarrow> string" where
  "other_toLocaleTimeString tv loc opts = ''--:--''"

definition sample_platform :: platform where
  "sample_platform =
     \<lparr>cn = join_classes, Date_new = sample_Date_new,
      toLocaleTimeString = sample_toLocaleTimeString\<rparr>"

definition sample_props :: MessageBubbleProps where
  "sample_props =
     \<lparr>role = Assistant, content = ''Hello'', raw_model_response = ''raw-debug-data'',
      timestamp = Some ''2024-01-01T13:05:00Z''\<rparr>"

text \<open>
  Two platforms with exceptions over the sample platform: one whose calls never throw,
  and one whose formatter throws a \<open>RangeError\<close> for an invalid date.
\<close>

fun never_throws_Date_new :: "string \<Rightarrow> exn option" where
  "never_throws_Date_new ts = None"

fun never_throws_toLocaleTimeString ::
  "time_value \<Rightarrow> string \<Rightarrow> (string \<times> string) list \<Rightarrow> exn option" where
  "never_throws_toLocaleTimeString tv loc opts = None"

fun strict_toLocaleTimeString_throws ::
  "time_value \<Rightarrow> string \<Rightarrow> (string \<times> string) list \<Rightarrow> exn option" where
  "strict_toLocaleTimeString_throws None loc opts = Some (Thrown ''RangeError'')"
| "strict_toLocaleTimeString_throws (Some ms) loc opts = None"

definition quiet_platform :: throwing_platform where
  "quiet_platform =
     \<lparr>returns = sample_platform, Date_new_throws = never_throws_Date_new,
      toLocaleTimeString_throws = never_throws_toLocaleTimeString\<rparr>"

definition strict_platform :: throwing_platform where
  "strict_platform =
     \<lparr>returns = sample_platform, Date_new_throws = never_throws_Date_new,
      toLocaleTimeString_throws = strict_toLocaleTimeString_throws\<rparr>"

section \<open>Properties\<close>

subsection \<open>The parts of the rendered tree\<close>

lemma message_column_MessageBubble:
  "message_column (MessageBubble pf props s) =
     bubble pf props #
     react_children [disclosure_control props s, disclosure_panel props s, time_label pf props]"
  by (simp add: MessageBubble_def react_children_def Let_def)

lemma bubble_tag [simp]:
  "has_tag t (bubble pf props) = (t = ''div'')"
  by (simp add: bubble_def Let_def)

lemma react_child_disclosure_control:
  "react_child (disclosure_control props s) =
     (if role props = Assistant \<and> raw_model_response props \<noteq> []
      then [Element ''button'' ''mt-1 text-xs text-blue-500 hover:underline''
              (Some (SetShowRawResponse (\<not> s)))
              (react_children [JStr (if s then label_hide_details else label_show_details)])]
      else [])"
  by (cases "role props") (simp_all add: disclosure_control_def js_and_def Let_def)

lemma react_child_disclosure_panel:
  "react_child (disclosure_panel props s) =
     (if role props = Assistant \<and> s
      then [Element ''div''
              ''mt-1 rounded-lg bg-gray-100 p-2 text-xs text-gray-800 whitespace-pre-wrap''
              None (react_children [JStr (raw_model_response props)])]
      else [])"
  by (cases "role props") (simp_all add: disclosure_panel_def js_and_def Let_def)

lemma react_child_time_label:
  "react_child (time_label pf props) =
     (case timestamp props of
        None \<Rightarrow> []
      | Some ts \<Rightarrow>
          if ts = [] then []
          else [Element ''span'' ''px-1 text-xs text-muted-foreground'' None
                  (react_children
                     [JStr (toLocaleTimeString pf (Date_new pf ts) ''ar-SA''
                              [(''hour'', ''2-digit''), (''minute'', ''2-digit'')])])])"
  by (simp add: time_label_def js_and_def split: option.split)

lemma disclosure_controls_MessageBubble:
  "disclosure_controls (MessageBubble pf props s) = react_child (disclosure_control props s)"
  by (simp add: disclosure_controls_def message_column_MessageBubble react_children_def
      react_child_disclosure_control react_child_disclosure_panel react_child_time_label
      split: option.split)

lemma disclosure_panels_MessageBubble:
  "disclosure_panels (MessageBubble pf props s) = react_child (disclosure_panel props s)"
  by (simp add: disclosure_panels_def message_column_MessageBubble react_children_def
      react_child_disclosure_control react_child_disclosure_panel react_child_time_label
      split: option.split)

lemma time_labels_MessageBubble:
  "time_labels (MessageBubble pf props s) = react_child (time_label pf props)"
  by (simp add: time_labels_def message_column_MessageBubble react_children_def
      react_child_disclosure_control react_child_disclosure_panel react_child_time_label
      split: option.split)

lemma text_of_react_children_JStr [simp]:
  "concat (map text_of (react_children [JStr s])) = s"
  by (simp add: react_children_def)

lemma labels_differ: "label_hide_details \<noteq> label_show_details"
  by (simp add: label_hide_details_def label_show_details_def)

lemma click_control_eq:
  "click_control pf props s =
     (if role props = Assistant \<and> raw_model_response props \<noteq> [] then \<not> s else s)"
  by (simp add: click_control_def disclosure_controls_MessageBubble
      react_child_disclosure_control)

subsection \<open>The disclosure panel\<close>

text \<open>
  Claim C1. The panel is to be in the tree only when \<open>showRawResponse\<close> is true, the
  role is assistant and \<open>raw_model_response\<close> is non-empty, and absent for every empty
  \<open>raw_model_response\<close> whatever the state. The guard of line 66 tests the role and
  the state only, unlike the guard of the control on line 56, and an instance reaches
  the state where this shows: mounted with the sample assistant message, clicked once,
  then rendered again by its parent with \<open>raw_model_response\<close> empty, it keeps
  \<open>showRawResponse = True\<close>. Its tree then holds a panel, an empty box, and no
  control, so that no click can close the panel again.
\<close>

theorem panel_after_prop_update:
  "run sample_platform sample_props
     [Click, Rerender (sample_props\<lparr>raw_model_response := ''''\<rparr>)] =
     (sample_props\<lparr>raw_model_response := ''''\<rparr>, True) \<and>
   raw_model_response (sample_props\<lparr>raw_model_response := ''''\<rparr>) = [] \<and>
   disclosure_panels
     (MessageBubble sample_platform (sample_props\<lparr>raw_model_response := ''''\<rparr>) True) =
     [Element ''div''
        ''mt-1 rounded-lg bg-gray-100 p-2 text-xs text-gray-800 whitespace-pre-wrap'' None []] \<and>
   disclosure_controls
     (MessageBubble sample_platform (sample_props\<lparr>raw_model_response := ''''\<rparr>) True) = [] \<and>
   step sample_platform (sample_props\<lparr>raw_model_response := ''''\<rparr>, True) Click =
     (sample_props\<lparr>raw_model_response := ''''\<rparr>, True)"
  by (simp add: run_def showRawResponse_init_def click_control_eq sample_props_def
      disclosure_panels_MessageBubble react_child_disclosure_panel
      disclosure_controls_MessageBubble react_child_disclosure_control react_children_def)

subsection \<open>The disclosure control\<close>

text \<open>
  Claim C2. The control (the toggle button) is in the tree if and only if the role is
  assistant and \<open>raw_model_response\<close> is a non-empty string. So a user message never
  has it, whatever its \<open>raw_model_response\<close>, and an assistant message with the empty
  string does not have it either.
\<close>

theorem control_gating:
  "(disclosure_controls (MessageBubble pf props s) \<noteq> [] \<longleftrightarrow>
      role props = Assistant \<and> raw_model_response props \<noteq> []) \<and>
   (role props = User \<longrightarrow> disclosure_controls (MessageBubble pf props s) = []) \<and>
   (raw_model_response props = [] \<longrightarrow> disclosure_controls (MessageBubble pf props s) = [])"
  by (simp add: disclosure_controls_MessageBubble react_child_disclosure_control)

text \<open>
  Claim C2 at concrete inputs: the sample assistant message has the control; a user
  message with a non-empty \<open>raw_model_response\<close> and an assistant message with an
  empty one have none.
\<close>

theorem control_gating_witness:
  "disclosure_controls (MessageBubble sample_platform sample_props False) \<noteq> [] \<and>
   role (sample_props\<lparr>role := User\<rparr>) = User \<and>
   disclosure_controls (MessageBubble sample_platform (sample_props\<lparr>role := User\<rparr>) True) = [] \<and>
   raw_model_response (sample_props\<lparr>raw_model_response := ''''\<rparr>) = [] \<and>
   disclosure_controls
     (MessageBubble sample_platform (sample_props\<lparr>raw_model_response := ''''\<rparr>) True) = []"
  using control_gating [of sample_platform sample_props False]
    control_gating [of sample_platform "sample_props\<lparr>role := User\<rparr>" True]
    control_gating [of sample_platform "sample_props\<lparr>raw_model_response := ''''\<rparr>" True]
  by (simp add: sample_props_def)

text \<open>
  Claim C3. Whatever the value of \<open>showRawResponse\<close>, one click on the rendered
  control replaces it by its negation, and two clicks in a row give the original value
  back.
\<close>

theorem click_toggles:
  assumes "disclosure_controls (MessageBubble pf props s) \<noteq> []"
  shows "click_control pf props s = (\<not> s) \<and>
         click_control pf props (click_control pf props s) = s"
proof -
  from assms have "role props = Assistant \<and> raw_model_response props \<noteq> []"
    by (simp add: disclosure_controls_MessageBubble react_child_disclosure_control
        split: if_splits)
  then show ?thesis
    by (simp add: click_control_eq)
qed

text \<open>Claim C3 at the sample assistant message, starting from the closed state.\<close>

theorem click_toggles_witness:
  "disclosure_controls (MessageBubble sample_platform sample_props False) \<noteq> [] \<and>
   click_control sample_platform sample_props False = True \<and>
   click_control sample_platform sample_props
     (click_control sample_platform sample_props False) = False"
proof -
  have shown: "disclosure_controls (MessageBubble sample_platform sample_props False) \<noteq> []"
    by (simp add: disclosure_controls_MessageBubble react_child_disclosure_control
        sample_props_def)
  from click_toggles [OF shown] shown show ?thesis
    by (simp add: click_control_eq sample_props_def)
qed

text \<open>
  Claim C4. The state starts at \<open>False\<close>. The first render of a fresh instance
  therefore has no panel, and a control in it carries the "show details" label.
\<close>

theorem initial_render:
  "showRawResponse_init = False \<and>
   disclosure_panels (MessageBubble pf props showRawResponse_init) = [] \<and>
   (\<forall>b \<in> set (disclosure_controls (MessageBubble pf props showRawResponse_init)).
      text_of b = label_show_details)"
  by (simp add: showRawResponse_init_def disclosure_panels_MessageBubble
      react_child_disclosure_panel disclosure_controls_MessageBubble
      react_child_disclosure_control)

text \<open>
  Claim C4 at the sample assistant message: its first render has one control with the
  "show details" label, and no panel.
\<close>

theorem initial_render_witness:
  "map text_of (disclosure_controls
     (MessageBubble sample_platform sample_props showRawResponse_init)) =
     [label_show_details] \<and>
   disclosure_panels (MessageBubble sample_platform sample_props showRawResponse_init) = []"
  using initial_render [of sample_platform sample_props]
  by (simp add: disclosure_controls_MessageBubble react_child_disclosure_control
      disclosure_panels_MessageBubble react_child_disclosure_panel
      showRawResponse_init_def sample_props_def)

text \<open>
  Claim C5. A rendered control carries the "hide details" label when
  \<open>showRawResponse\<close> is true and the "show details" label when it is false, and the
  two labels are different strings.
\<close>

theorem control_label:
  "b \<in> set (disclosure_controls (MessageBubble pf props s)) \<Longrightarrow>
   text_of b = (if s then label_hide_details else label_show_details) \<and>
   label_hide_details \<noteq> label_show_details"
  by (simp add: disclosure_controls_MessageBubble react_child_disclosure_control
      labels_differ split: if_splits)

text \<open>Claim C5 at the sample assistant message with the panel open.\<close>

theorem control_label_witness:
  "Element ''button'' ''mt-1 text-xs text-blue-500 hover:underline''
     (Some (SetShowRawResponse False)) [Text label_hide_details]
     \<in> set (disclosure_controls (MessageBubble sample_platform sample_props True)) \<and>
   text_of (Element ''button'' ''mt-1 text-xs text-blue-500 hover:underline''
     (Some (SetShowRawResponse False)) [Text label_hide_details]) = label_hide_details"
proof -
  have present:
    "Element ''button'' ''mt-1 text-xs text-blue-500 hover:underline''
       (Some (SetShowRawResponse False)) [Text label_hide_details]
       \<in> set (disclosure_controls (MessageBubble sample_platform sample_props True))"
    by (simp add: disclosure_controls_MessageBubble react_child_disclosure_control
        sample_props_def react_children_def label_hide_details_def)
  from control_label [OF present] present show ?thesis by simp
qed

subsection \<open>The time label\<close>

text \<open>
  Claim C6. A time label is in the tree if and only if a timestamp is supplied and is
  not the empty string. When it is, the label is one \<open>span\<close> whose text is the
  platform's \<open>toLocaleTimeString\<close> of the \<open>Date\<close> made from the timestamp, for the
  locale \<open>ar-SA\<close> with two-digit hour and minute. With no timestamp there is no time
  label.
\<close>

theorem time_label_gating:
  "(time_labels (MessageBubble pf props s) \<noteq> [] \<longleftrightarrow>
      (\<exists>ts. timestamp props = Some ts \<and> ts \<noteq> [])) \<and>
   (\<forall>ts. timestamp props = Some ts \<and> ts \<noteq> [] \<longrightarrow>
      map text_of (time_labels (MessageBubble pf props s)) =
        [toLocaleTimeString pf (Date_new pf ts) ''ar-SA''
           [(''hour'', ''2-digit''), (''minute'', ''2-digit'')]]) \<and>
   (timestamp props = None \<longrightarrow> time_labels (MessageBubble pf props s) = [])"
  by (simp add: time_labels_MessageBubble react_child_time_label split: option.split)

text \<open>
  Claim C6 at concrete inputs: the sample message, whose timestamp parses, shows the
  formatted time; the same message without a timestamp shows no time label.
\<close>

theorem time_label_gating_witness:
  "timestamp sample_props = Some ''2024-01-01T13:05:00Z'' \<and>
   map text_of (time_labels (MessageBubble sample_platform sample_props False)) =
     [''01:05 PM''] \<and>
   timestamp (sample_props\<lparr>timestamp := None\<rparr>) = None \<and>
   time_labels (MessageBubble sample_platform (sample_props\<lparr>timestamp := None\<rparr>) False) = []"
  using time_label_gating [of sample_platform sample_props False]
    time_label_gating [of sample_platform "sample_props\<lparr>timestamp := None\<rparr>" False]
  by (simp add: sample_props_def sample_platform_def sample_Date_new_def)

text \<open>
  Claim C6 as it is worded, a label for every supplied timestamp, fails: a message
  whose timestamp is supplied as the empty string has no time label.
\<close>

theorem time_label_gating_counterexample:
  "timestamp \<lparr>role = Assistant, content = ''Hello'', raw_model_response = ''raw-debug-data'',
              timestamp = Some ''''\<rparr> \<noteq> None \<and>
   time_labels
     (MessageBubble sample_platform
        \<lparr>role = Assistant, content = ''Hello'', raw_model_response = ''raw-debug-data'',
         timestamp = Some ''''\<rparr> False) = []"
  by (simp add: time_labels_MessageBubble react_child_time_label)

text \<open>
  Claim C7. Every supplied non-empty timestamp goes to the formatter with no check of
  its validity and no error branch. A render fails exactly when the timestamp is
  non-empty and one of the two platform calls on it throws, and then with that
  exception; so on a platform whose calls do not throw no input makes the component
  fail. When the render returns, the label's text is what \<open>toLocaleTimeString\<close>
  returns for the \<open>Date\<close> built from the timestamp; for a timestamp that does not
  parse that is whatever the platform prints for the invalid date.
\<close>

theorem timestamp_unguarded:
  "(MessageBubble_outcome tp props s = Inl e \<longleftrightarrow>
      (\<exists>ts. timestamp props = Some ts \<and> ts \<noteq> [] \<and> format_call tp ts = Inl e)) \<and>
   ((\<forall>ts. Date_new_throws tp ts = None) \<and>
    (\<forall>d loc opts. toLocaleTimeString_throws tp d loc opts = None) \<longrightarrow>
      MessageBubble_outcome tp props s = Inr (MessageBubble (returns tp) props s)) \<and>
   (\<forall>ts t. timestamp props = Some ts \<and> ts \<noteq> [] \<and>
      MessageBubble_outcome tp props s = Inr t \<longrightarrow>
      map text_of (time_labels t) =
        [toLocaleTimeString (returns tp) (Date_new (returns tp) ts) ''ar-SA''
           [(''hour'', ''2-digit''), (''minute'', ''2-digit'')]] \<and>
      (Date_new (returns tp) ts = None \<longrightarrow>
         map text_of (time_labels t) =
           [toLocaleTimeString (returns tp) None ''ar-SA''
              [(''hour'', ''2-digit''), (''minute'', ''2-digit'')]]))"
proof (intro conjI allI impI)
  show "MessageBubble_outcome tp props s = Inl e \<longleftrightarrow>
      (\<exists>ts. timestamp props = Some ts \<and> ts \<noteq> [] \<and> format_call tp ts = Inl e)"
    by (auto simp add: MessageBubble_outcome_def split: option.splits sum.splits)
next
  assume "(\<forall>ts. Date_new_throws tp ts = None) \<and>
    (\<forall>d loc opts. toLocaleTimeString_throws tp d loc opts = None)"
  then show "MessageBubble_outcome tp props s = Inr (MessageBubble (returns tp) props s)"
    by (simp add: MessageBubble_outcome_def format_call_def split: option.splits)
next
  fix ts t
  assume returned: "timestamp props = Some ts \<and> ts \<noteq> [] \<and>
      MessageBubble_outcome tp props s = Inr t"
  then have tree: "t = MessageBubble (returns tp) props s"
    by (auto simp add: MessageBubble_outcome_def split: sum.splits)
  with returned show label: "map text_of (time_labels t) =
        [toLocaleTimeString (returns tp) (Date_new (returns tp) ts) ''ar-SA''
           [(''hour'', ''2-digit''), (''minute'', ''2-digit'')]]"
    by (simp add: time_labels_MessageBubble react_child_time_label)
  assume "Date_new (returns tp) ts = None"
  with label show "map text_of (time_labels t) =
           [toLocaleTimeString (returns tp) None ''ar-SA''
              [(''hour'', ''2-digit''), (''minute'', ''2-digit'')]]"
    by simp
qed

text \<open>
  Claim C7 at a timestamp that does not parse. On the platform that never throws the
  render returns and the label is \<open>Invalid Date\<close>, what the sample platform prints.
  On the platform whose formatter throws for an invalid date the render fails with
  that exception.
\<close>

theorem timestamp_unguarded_witness:
  "(\<forall>ts. Date_new_throws quiet_platform ts = None) \<and>
   (\<forall>d loc opts. toLocaleTimeString_throws quiet_platform d loc opts = None) \<and>
   timestamp (sample_props\<lparr>timestamp := Some ''not a date''\<rparr>) = Some ''not a date'' \<and>
   ''not a date'' \<noteq> [] \<and>
   Date_new (returns quiet_platform) ''not a date'' = None \<and>
   MessageBubble_outcome quiet_platform
     (sample_props\<lparr>timestamp := Some ''not a date''\<rparr>) False =
     Inr (MessageBubble sample_platform
            (sample_props\<lparr>timestamp := Some ''not a date''\<rparr>) False) \<and>
   map text_of
     (time_labels
        (MessageBubble sample_platform
           (sample_props\<lparr>timestamp := Some ''not a date''\<rparr>) False)) =
     [''Invalid Date''] \<and>
   format_call strict_platform ''not a date'' = Inl (Thrown ''RangeError'') \<and>
   MessageBubble_outcome strict_platform
     (sample_props\<lparr>timestamp := Some ''not a date''\<rparr>) False =
     Inl (Thrown ''RangeError'')"
proof -
  let ?p = "sample_props\<lparr>timestamp := Some ''not a date''\<rparr>"
  have quiet:
    "(\<forall>ts. Date_new_throws quiet_platform ts = None) \<and>
     (\<forall>d loc opts. toLocaleTimeString_throws quiet_platform d loc opts = None)"
    by (simp add: quiet_platform_def)
  have supplied: "timestamp ?p = Some ''not a date'' \<and> ''not a date'' \<noteq> []"
    by simp
  have invalid: "Date_new (returns quiet_platform) ''not a date'' = None"
    by (simp add: quiet_platform_def sample_platform_def sample_Date_new_def)
  have throws: "format_call strict_platform ''not a date'' = Inl (Thrown ''RangeError'')"
    by (simp add: format_call_def strict_platform_def sample_platform_def
        sample_Date_new_def)
  note quiet_case = timestamp_unguarded [of quiet_platform ?p False]
  note strict_case =
    timestamp_unguarded [of strict_platform ?p False "Thrown ''RangeError''"]
  from quiet_case quiet
  have returned: "MessageBubble_outcome quiet_platform ?p False =
      Inr (MessageBubble (returns quiet_platform) ?p False)"
    by blast
  with quiet_case supplied invalid
  have "map text_of (time_labels (MessageBubble (returns quiet_platform) ?p False)) =
      [toLocaleTimeString (returns quiet_platform) None ''ar-SA''
         [(''hour'', ''2-digit''), (''minute'', ''2-digit'')]]"
    by blast
  then have label:
    "map text_of (time_labels (MessageBubble sample_platform ?p False)) = [''Invalid Date'']"
    by (simp add: quiet_platform_def sample_platform_def)
  from strict_case supplied throws
  have failed: "MessageBubble_outcome strict_platform ?p False = Inl (Thrown ''RangeError'')"
    by blast
  from quiet supplied invalid returned label throws failed show ?thesis
    by (simp add: quiet_platform_def)
qed

text \<open>
  Claim C7 as it is worded, the formatter applied to every supplied timestamp, fails:
  the empty string is a supplied timestamp that does not parse, and its render does not
  show what the formatter prints for it.
\<close>

theorem timestamp_unguarded_counterexample:
  "Date_new sample_platform '''' = None \<and>
   map text_of
     (time_labels
        (MessageBubble sample_platform
           \<lparr>role = Assistant, content = ''Hello'', raw_model_response = ''raw-debug-data'',
            timestamp = Some ''''\<rparr> False)) \<noteq>
     [toLocaleTimeString sample_platform (Date_new sample_platform '''') ''ar-SA''
        [(''hour'', ''2-digit''), (''minute'', ''2-digit'')]]"
  by (simp add: time_labels_MessageBubble react_child_time_label sample_platform_def
      sample_Date_new_def)

text \<open>
  Claim C10. A timestamp equal to the empty string is treated as an absent one: there
  is no time label, the tree is the one rendered without a timestamp, and the tree does
  not depend on the platform's \<open>Date\<close> and \<open>toLocaleTimeString\<close>, which are not
  called.
\<close>

theorem empty_timestamp_absent:
  "timestamp props = Some [] \<Longrightarrow>
   time_labels (MessageBubble pf props s) = [] \<and>
   MessageBubble pf props s = MessageBubble pf (props\<lparr>timestamp := None\<rparr>) s \<and>
   MessageBubble (pf\<lparr>Date_new := d, toLocaleTimeString := f\<rparr>) props s =
     MessageBubble pf props s"
proof -
  assume empty: "timestamp props = Some []"
  have none: "time_labels (MessageBubble pf props s) = []"
    using empty by (simp add: time_labels_MessageBubble react_child_time_label)
  have absent: "MessageBubble pf props s = MessageBubble pf (props\<lparr>timestamp := None\<rparr>) s"
    using empty
    by (simp add: MessageBubble_def avatar_def bubble_def disclosure_control_def
        disclosure_panel_def time_label_def js_and_def Let_def react_children_def)
  have uncalled:
    "MessageBubble (pf\<lparr>Date_new := d, toLocaleTimeString := f\<rparr>) props s =
       MessageBubble pf props s"
    using empty
    by (simp add: MessageBubble_def avatar_def bubble_def time_label_def js_and_def Let_def)
  from none absent uncalled show ?thesis by simp
qed

text \<open>
  Claim C10 at the sample message with the timestamp replaced by the empty string, and
  a second formatter that prints something else.
\<close>

theorem empty_timestamp_absent_witness:
  "timestamp (sample_props\<lparr>timestamp := Some ''''\<rparr>) = Some [] \<and>
   time_labels (MessageBubble sample_platform (sample_props\<lparr>timestamp := Some ''''\<rparr>) True) = [] \<and>
   MessageBubble sample_platform (sample_props\<lparr>timestamp := Some ''''\<rparr>) True =
     MessageBubble sample_platform (sample_props\<lparr>timestamp := None\<rparr>) True \<and>
   MessageBubble
     (sample_platform\<lparr>Date_new := sample_Date_new, toLocaleTimeString := other_toLocaleTimeString\<rparr>)
     (sample_props\<lparr>timestamp := Some ''''\<rparr>) True =
     MessageBubble sample_platform (sample_props\<lparr>timestamp := Some ''''\<rparr>) True"
proof -
  have empty: "timestamp (sample_props\<lparr>timestamp := Some ''''\<rparr>) = Some []"
    by simp
  from empty_timestamp_absent [OF empty, where pf = sample_platform and s = True
      and d = sample_Date_new and f = other_toLocaleTimeString] empty
  show ?thesis
    by (simp add: time_labels_MessageBubble react_child_time_label)
qed

subsection \<open>The texts shown\<close>

text \<open>
  Claim C8. The text inside the bubble is exactly \<open>content\<close>, and the text inside a
  rendered panel is exactly \<open>raw_model_response\<close>: nothing is trimmed, escaped or
  rewritten, so spaces and line breaks stay as they are.
\<close>

theorem verbatim_text:
  "(\<exists>b. rendered_bubble (MessageBubble pf props s) = Some b \<and> text_of b = content props) \<and>
   (\<forall>d \<in> set (disclosure_panels (MessageBubble pf props s)).
      text_of d = raw_model_response props)"
  by (simp add: rendered_bubble_def message_column_MessageBubble bubble_def Let_def
      disclosure_panels_MessageBubble react_child_disclosure_panel)

text \<open>
  Claim C8 at a message of two lines with an open panel: the bubble's text keeps the
  line feed (byte 10) between \<open>line1\<close> and \<open>line2\<close>, and the panel shows
  \<open>raw_model_response\<close>.
\<close>

theorem verbatim_text_witness:
  "map text_of
     (disclosure_panels
        (MessageBubble sample_platform
           (sample_props\<lparr>content := ''line1'' @ [CHR 0x0A] @ ''line2''\<rparr>) True)) =
     [''raw-debug-data''] \<and>
   map_option text_of
     (rendered_bubble
        (MessageBubble sample_platform
           (sample_props\<lparr>content := ''line1'' @ [CHR 0x0A] @ ''line2''\<rparr>) True)) =
     Some (''line1'' @ [CHR 0x0A] @ ''line2'')"
  using verbatim_text [of sample_platform
      "sample_props\<lparr>content := ''line1'' @ [CHR 0x0A] @ ''line2''\<rparr>" True]
  by (auto simp add: sample_props_def disclosure_panels_MessageBubble
      react_child_disclosure_panel)

subsection \<open>User messages\<close>

text \<open>
  Claim C9. For a user message the tree depends neither on \<open>raw_model_response\<close> nor
  on \<open>showRawResponse\<close>: two user messages with the same \<open>content\<close> and
  \<open>timestamp\<close> render to the same tree, whatever their \<open>raw_model_response\<close> and
  whatever the two states.
\<close>

theorem user_noninterference:
  "role p = User \<Longrightarrow> role q = User \<Longrightarrow> content p = content q \<Longrightarrow>
   timestamp p = timestamp q \<Longrightarrow>
   MessageBubble pf p s = MessageBubble pf q s'"
  by (simp add: MessageBubble_def avatar_def bubble_def disclosure_control_def
      disclosure_panel_def time_label_def js_and_def Let_def react_children_def)

text \<open>
  Claim C9 at two user messages that differ in \<open>raw_model_response\<close>, one rendered
  closed and one open.
\<close>

theorem user_noninterference_witness:
  "role (sample_props\<lparr>role := User\<rparr>) = User \<and>
   role (sample_props\<lparr>role := User, raw_model_response := ''''\<rparr>) = User \<and>
   content (sample_props\<lparr>role := User\<rparr>) =
     content (sample_props\<lparr>role := User, raw_model_response := ''''\<rparr>) \<and>
   timestamp (sample_props\<lparr>role := User\<rparr>) =
     timestamp (sample_props\<lparr>role := User, raw_model_response := ''''\<rparr>) \<and>
   MessageBubble sample_platform (sample_props\<lparr>role := User\<rparr>) False =
     MessageBubble sample_platform
       (sample_props\<lparr>role := User, raw_model_response := ''''\<rparr>) True"
proof -
  have users:
    "role (sample_props\<lparr>role := User\<rparr>) = User"
    "role (sample_props\<lparr>role := User, raw_model_response := ''''\<rparr>) = User"
    by simp_all
  have same:
    "content (sample_props\<lparr>role := User\<rparr>) =
       content (sample_props\<lparr>role := User, raw_model_response := ''''\<rparr>)"
    "timestamp (sample_props\<lparr>role := User\<rparr>) =
       timestamp (sample_props\<lparr>role := User, raw_model_response := ''''\<rparr>)"
    by simp_all
  from user_noninterference [OF users same, of sample_platform False True] users same
  show ?thesis by simp
qed

end
